theory Spec2Isabelle
  imports Main "HOL-Library.Char_ord" "HOL-Library.List_Lexorder"
begin

section \<open>Text, offsets and Python string primitives\<close>

text \<open>
  A document is a Python \<open>str\<close>. It is modelled as a \<open>string\<close> whose characters are the
  code points below 256; offsets are positions in that list. Offsets handed around by the
  editor are never negative, so they are natural numbers; where the source computes
  \<open>i - 1\<close> and indexes with it, the index is an \<open>int\<close> and Python's wrap-around for
  negative indices is written out in \<open>char_at\<close>.
\<close>

datatype py_error = IndexError | TypeError | AttributeError | RuntimeError string | Unmodelled

type_synonym span = "nat \<times> nat"

definition char_at :: "string \<Rightarrow> int \<Rightarrow> char option" where
  \<comment> \<open>\<open>text[i]\<close>: negative indices count from the end, \<open>None\<close> is IndexError.\<close>
  "char_at text i =
     (let n = int (length text); j = (if i < 0 then n + i else i)
      in if 0 \<le> j \<and> j < n then Some (text ! nat j) else None)"

definition slice :: "string \<Rightarrow> nat \<Rightarrow> nat \<Rightarrow> string" where
  \<comment> \<open>\<open>text[a:b]\<close> for non-negative \<open>a\<close>, \<open>b\<close>: clipped at the end, empty when \<open>b \<le> a\<close>.\<close>
  "slice text a b = take (b - a) (drop a text)"

definition startswith :: "string \<Rightarrow> string \<Rightarrow> nat \<Rightarrow> bool" where
  \<comment> \<open>\<open>text.startswith(sub, i)\<close>\<close>
  "startswith text sub i = (i \<le> length text \<and> take (length sub) (drop i text) = sub)"

fun find_pre :: "string \<Rightarrow> string \<Rightarrow> nat option" where
  "find_pre sub [] = (if sub = [] then Some 0 else None)"
| "find_pre sub (x # xs) =
     (if take (length sub) (x # xs) = sub then Some 0
      else map_option Suc (find_pre sub xs))"

definition find_from :: "string \<Rightarrow> string \<Rightarrow> nat \<Rightarrow> nat option" where
  \<comment> \<open>\<open>text.find(sub, start)\<close>; \<open>None\<close> stands for the result \<open>-1\<close>.\<close>
  "find_from text sub start =
     (if start > length text then None
      else map_option (\<lambda>k. k + start) (find_pre sub (drop start text)))"

definition find :: "string \<Rightarrow> string \<Rightarrow> nat option" where
  "find text sub = find_from text sub 0"

definition contains :: "string \<Rightarrow> string \<Rightarrow> bool" where
  \<comment> \<open>\<open>sub in text\<close>\<close>
  "contains text sub = (find text sub \<noteq> None)"

definition isspace :: "char \<Rightarrow> bool" where
  \<comment> \<open>\<open>ch.isspace()\<close>, and the whitespace class of \<open>re\<close> on \<open>str\<close> patterns, below code point 256.\<close>
  "isspace c = (of_char c \<in> {9, 10, 11, 12, 13, 28, 29, 30, 31, 32, 133, 160 :: nat})"

abbreviation (input) DQ :: char where "DQ \<equiv> CHR 0x22"
abbreviation (input) SQ :: char where "SQ \<equiv> CHR 0x27"
abbreviation (input) BSL :: char where "BSL \<equiv> CHR 0x5C"
abbreviation (input) NL :: char where "NL \<equiv> CHR 0x0A"
abbreviation (input) CR :: char where "CR \<equiv> CHR 0x0D"
abbreviation (input) TAB :: char where "TAB \<equiv> CHR 0x09"

section \<open>Generators\<close>

text \<open>
  A Python generator is a finite sequence of yielded values that ends by returning or
  by raising.
\<close>

datatype 'a gen = Stop | Raise py_error | Yield 'a "'a gen"

fun yields :: "'a gen \<Rightarrow> 'a list" where
  "yields Stop = []"
| "yields (Raise e) = []"
| "yields (Yield x g) = x # yields g"

fun gen_error :: "'a gen \<Rightarrow> py_error option" where
  "gen_error Stop = None"
| "gen_error (Raise e) = Some e"
| "gen_error (Yield x g) = gen_error g"

section \<open>Top-level object spans: \<open>_iter_top_level_flow_maps\<close>\<close>

text \<open>
  The loop variables of \<open>_iter_top_level_flow_maps\<close> besides the cursor \<open>i\<close>: the open
  quote \<open>in_q\<close> (\<open>None\<close> outside a string), the brace depth (a Python int, it may go
  negative) and \<open>b_start\<close>.
\<close>

record scan =
  in_q :: "char option"
  depth :: int
  b_start :: "nat option"

text \<open>
  One pass through the loop body at cursor \<open>i\<close>: the next cursor (\<open>i += 1\<close>), the new loop
  variables and the span yielded in this pass, if any. \<open>text[i - 1]\<close> is read only when
  \<open>ch == in_q\<close>.
\<close>

definition iter_body ::
  "string \<Rightarrow> nat \<Rightarrow> scan \<Rightarrow> py_error + (nat \<times> scan \<times> span option)" where
  "iter_body text i s =
     (case char_at text (int i) of
        None \<Rightarrow> Inl IndexError
      | Some ch \<Rightarrow>
         (case in_q s of
            Some q \<Rightarrow>
              (if ch = q then
                 (case char_at text (int i - 1) of
                    None \<Rightarrow> Inl IndexError
                  | Some p \<Rightarrow>
                      if p \<noteq> BSL then Inr (i + 1, s\<lparr>in_q := None\<rparr>, None)
                      else Inr (i + 1, s, None))
               else Inr (i + 1, s, None))
          | None \<Rightarrow>
              if ch = DQ \<or> ch = SQ then Inr (i + 1, s\<lparr>in_q := Some ch\<rparr>, None)
              else if ch = CHR ''{'' then
                Inr (i + 1,
                     s\<lparr>depth := depth s + 1,
                       b_start := (if depth s = 0 then Some i else b_start s)\<rparr>, None)
              else if ch = CHR ''}'' then
                (if depth s - 1 = 0 \<and> b_start s \<noteq> None
                 then Inr (i + 1, s\<lparr>depth := depth s - 1, b_start := None\<rparr>,
                           Some (the (b_start s), i + 1))
                 else Inr (i + 1, s\<lparr>depth := depth s - 1\<rparr>, None))
              else Inr (i + 1, s, None)))"

lemma iter_body_next: "iter_body text i s = Inr (i', s', y) \<Longrightarrow> i' = i + 1"
  by (auto simp: iter_body_def split: option.splits if_splits)

fun emit :: "'a option \<Rightarrow> 'a gen \<Rightarrow> 'a gen" where
  \<comment> \<open>a pass of a generator's loop that yields or not, followed by the rest of the loop\<close>
  "emit None g = g"
| "emit (Some x) g = Yield x g"

function iter_loop :: "string \<Rightarrow> nat \<Rightarrow> nat \<Rightarrow> scan \<Rightarrow> span gen" where
  "iter_loop text end i s =
     (if i < end then
        (case iter_body text i s of
           Inl e \<Rightarrow> Raise e
         | Inr (i', s', y) \<Rightarrow> emit y (iter_loop text end i' s'))
      else Stop)"
  by pat_completeness auto
termination
  by (relation "measure (\<lambda>(text, end, i, s). end - i)") (auto dest: iter_body_next)

definition iter_top_level_flow_maps :: "string \<Rightarrow> nat \<Rightarrow> nat \<Rightarrow> span gen" where
  "iter_top_level_flow_maps text start end =
     iter_loop text end start \<lparr>in_q = None, depth = 0, b_start = None\<rparr>"

definition spans_ok :: "nat \<Rightarrow> nat \<Rightarrow> span list \<Rightarrow> bool" where
  \<comment> \<open>every span is non-empty and inside \<open>[lo, hi)\<close>; each span ends before the next begins,
      so the starts strictly increase\<close>
  "spans_ok lo hi ys =
     (sorted_wrt (\<lambda>a b. snd a \<le> fst b \<and> fst a < fst b) ys \<and>
      list_all (\<lambda>a. lo \<le> fst a \<and> fst a < snd a \<and> snd a \<le> hi) ys)"

lemma spans_ok_Nil: "spans_ok lo hi []" by (simp add: spans_ok_def)

lemma spans_ok_Cons:
  "spans_ok e hi ys \<Longrightarrow> lo \<le> b \<Longrightarrow> b < e \<Longrightarrow> e \<le> hi \<Longrightarrow> spans_ok lo hi ((b, e) # ys)"
  by (auto simp: spans_ok_def list_all_iff)

definition pending :: "nat \<Rightarrow> nat \<Rightarrow> scan \<Rightarrow> bool" where
  "pending lo i s = (\<forall>b. b_start s = Some b \<longrightarrow> lo \<le> b \<and> b < i)"

lemma iter_body_quiet:
  "iter_body text i s = Inr (i', s', None) \<Longrightarrow> pending lo i s \<Longrightarrow> lo \<le> i \<Longrightarrow>
   i' = i + 1 \<and> pending lo (i + 1) s'"
  by (auto simp: iter_body_def pending_def split: option.splits if_splits)

lemma iter_body_yield:
  "iter_body text i s = Inr (i', s', Some (b, e)) \<Longrightarrow> pending lo i s \<Longrightarrow>
   i' = i + 1 \<and> lo \<le> b \<and> b < i \<and> e = i + 1 \<and> b_start s' = None"
  by (auto simp: iter_body_def pending_def split: option.splits if_splits)

lemma iter_loop_spans:
  "lo \<le> i \<Longrightarrow> pending lo i s \<Longrightarrow> spans_ok lo hi (yields (iter_loop text hi i s))"
proof (induction "hi - i" arbitrary: i s lo)
  case 0
  then have "\<not> i < hi" by simp
  then show ?case by (subst iter_loop.simps) (simp add: spans_ok_Nil)
next
  case (Suc n)
  have lt: "i < hi" and n: "n = hi - (i + 1)" using Suc.hyps(2) by simp_all
  note IH = Suc.hyps(1)[OF n]
  show ?case
  proof (cases "iter_body text i s")
    case (Inl e)
    with lt show ?thesis by (subst iter_loop.simps) (simp add: spans_ok_Nil)
  next
    case (Inr r)
    obtain i' s' y where r: "r = (i', s', y)" by (cases r)
    show ?thesis
    proof (cases y)
      case None
      have i': "i' = i + 1" and "pending lo (i + 1) s'"
        using iter_body_quiet Inr r None Suc.prems by blast+
      then have "spans_ok lo hi (yields (iter_loop text hi (i + 1) s'))"
        using IH[of lo s'] Suc.prems(1) by simp
      with lt Inr r None i' show ?thesis by (subst iter_loop.simps) simp
    next
      case (Some sp)
      obtain b e where sp: "sp = (b, e)" by (cases sp)
      have y: "i' = i + 1 \<and> lo \<le> b \<and> b < i \<and> e = i + 1 \<and> b_start s' = None"
        using iter_body_yield Inr r Some sp Suc.prems(2) by blast
      then have "pending (i + 1) (i + 1) s'" by (simp add: pending_def)
      then have "spans_ok (i + 1) hi (yields (iter_loop text hi (i + 1) s'))"
        using IH[of "i + 1" s'] by simp
      then have "spans_ok lo hi ((b, i + 1) # yields (iter_loop text hi (i + 1) s'))"
        using y lt by (intro spans_ok_Cons) simp_all
      with lt Inr r Some sp y show ?thesis by (subst iter_loop.simps) simp
    qed
  qed
qed

text \<open>
  C9. For every text and every range \<open>[start, end)\<close>, the spans yielded by
  \<open>_iter_top_level_flow_maps\<close> appear in document order: each span is non-empty and lies
  inside the range, each ends no later than the next one starts (no overlap), and the start
  offsets strictly increase.
\<close>

theorem iter_top_level_flow_maps_ordered:
  "sorted_wrt (\<lambda>a b. snd a \<le> fst b \<and> fst a < fst b)
     (yields (iter_top_level_flow_maps text start hi)) \<and>
   list_all (\<lambda>a. start \<le> fst a \<and> fst a < snd a \<and> snd a \<le> hi)
     (yields (iter_top_level_flow_maps text start hi))"
  using iter_loop_spans[of start start "\<lparr>in_q = None, depth = 0, b_start = None\<rparr>" hi "text"]
  by (simp add: iter_top_level_flow_maps_def spans_ok_def pending_def)

section \<open>The ship-list array region: \<open>_extract_ship_list_region\<close>\<close>

definition ship_list_keys :: "string list" where
  \<open>ship_list_keys =
     [''"#ship-list"'', SQ # ''#ship-list'' @ [SQ], ''#ship-list'',
      ''"ship-list"'', SQ # ''ship-list'' @ [SQ], ''ship-list'']\<close>

fun first_key :: "string \<Rightarrow> string list \<Rightarrow> (nat \<times> nat) option" where
  \<comment> \<open>the \<open>for k in keys\<close> loop: position and length of the first spelling found\<close>
  "first_key text [] = None"
| "first_key text (k # ks) =
     (case find text k of Some p \<Rightarrow> Some (p, length k) | None \<Rightarrow> first_key text ks)"

definition skip_line_comment :: "string \<Rightarrow> nat \<Rightarrow> nat" where
  "skip_line_comment text j =
     (case find_from text [NL] j of None \<Rightarrow> length text | Some nl \<Rightarrow> nl + 1)"

definition skip_block_comment :: "string \<Rightarrow> nat \<Rightarrow> nat" where
  "skip_block_comment text j =
     (case find_from text ''*/'' (j + 2) of None \<Rightarrow> length text | Some e \<Rightarrow> e + 2)"

lemma take_eq_length: "take (length sub) xs = sub \<Longrightarrow> length sub \<le> length xs"
proof -
  assume a: "take (length sub) xs = sub"
  have "length (take (length sub) xs) = min (length sub) (length xs)" by simp
  with a have "length sub = min (length sub) (length xs)" by simp
  then show ?thesis by linarith
qed

lemma find_pre_bound: "find_pre sub xs = Some k \<Longrightarrow> k + length sub \<le> length xs"
proof (induction xs arbitrary: k)
  case Nil
  then show ?case by (simp split: if_splits)
next
  case (Cons x xs)
  show ?case
  proof (cases "take (length sub) (x # xs) = sub")
    case True
    with Cons.prems take_eq_length[OF True] show ?thesis by simp
  next
    case False
    with Cons.prems obtain k' where "find_pre sub xs = Some k'" "k = Suc k'" by auto
    with Cons.IH show ?thesis by simp
  qed
qed

lemma find_from_ge: "find_from text sub start = Some k \<Longrightarrow> start \<le> k"
  by (auto simp: find_from_def split: if_splits)

lemma find_from_le: "find_from text sub start = Some k \<Longrightarrow> k + length sub \<le> length text"
  by (auto simp: find_from_def split: if_splits dest!: find_pre_bound)

lemma skip_line_comment_gt: "j < length text \<Longrightarrow> j < skip_line_comment text j"
  by (auto simp: skip_line_comment_def split: option.splits dest: find_from_ge)

lemma skip_block_comment_gt: "j < length text \<Longrightarrow> j < skip_block_comment text j"
  by (auto simp: skip_block_comment_def split: option.splits dest: find_from_ge)

lemma skip_line_comment_le: "skip_line_comment text j \<le> length text"
  by (auto simp: skip_line_comment_def split: option.splits dest: find_from_le)

lemma skip_block_comment_le: "skip_block_comment text j \<le> length text"
  by (auto simp: skip_block_comment_def split: option.splits dest: find_from_le)

text \<open>
  The loop that advances to the first significant token after the colon. \<open>Inr i\<close> is the
  cursor when the loop ends (by \<open>break\<close> at an opening bracket, or at the end of the text),
  \<open>Inl ()\<close> is the \<open>return None\<close> on an unexpected token.
\<close>

function skip_to_token :: "string \<Rightarrow> nat \<Rightarrow> unit + nat" where
  "skip_to_token text i =
     (if i < length text then
        (let ch = text ! i in
         if isspace ch then skip_to_token text (i + 1)
         else if startswith text ''//'' i \<or> ch = CHR ''#'' then
           skip_to_token text (skip_line_comment text i)
         else if startswith text ''/*'' i then skip_to_token text (skip_block_comment text i)
         else if ch = CHR ''['' then Inr i
         else Inl ())
      else Inr i)"
  by pat_completeness auto
termination
  by (relation "measure (\<lambda>(text, i). length text - i)")
     (auto intro!: diff_less_mono2 skip_line_comment_gt skip_block_comment_gt)

text \<open>
  The variables of the bracket-balancing loop besides the cursor \<open>k\<close>. The test for the
  escape character compares the one-character string \<open>ch\<close> with the string literal of
  the source, which holds two backslashes.
\<close>

record balance =
  bdepth :: int
  in_dq :: bool
  in_sq :: bool
  esc :: bool

definition balance_body :: "string \<Rightarrow> nat \<Rightarrow> balance \<Rightarrow> (nat \<times> balance) + nat" where
  \<comment> \<open>one pass at cursor \<open>k\<close>: \<open>Inl\<close> the next cursor and variables, \<open>Inr end\<close> the \<open>break\<close>\<close>
  "balance_body text k s =
     (let ch = text ! k in
      if \<not> (in_dq s \<or> in_sq s) \<and> (slice text k (k + 2) = ''//'' \<or> ch = CHR ''#'')
      then Inl (skip_line_comment text k, s)
      else if \<not> (in_dq s \<or> in_sq s) \<and> slice text k (k + 2) = ''/*''
      then Inl (skip_block_comment text k, s)
      else if in_dq s \<or> in_sq s then
        (if esc s then Inl (k + 1, s\<lparr>esc := False\<rparr>)
         else if [ch] = [BSL, BSL] then Inl (k + 1, s\<lparr>esc := True\<rparr>)
         else if in_dq s \<and> ch = DQ then Inl (k + 1, s\<lparr>in_dq := False\<rparr>)
         else if in_sq s \<and> ch = SQ then Inl (k + 1, s\<lparr>in_sq := False\<rparr>)
         else Inl (k + 1, s))
      else
        (if ch = DQ then Inl (k + 1, s\<lparr>in_dq := True\<rparr>)
         else if ch = SQ then Inl (k + 1, s\<lparr>in_sq := True\<rparr>)
         else if ch = CHR ''['' then Inl (k + 1, s\<lparr>bdepth := bdepth s + 1\<rparr>)
         else if ch = CHR '']'' then
           (if bdepth s - 1 = 0 then Inr (k + 1) else Inl (k + 1, s\<lparr>bdepth := bdepth s - 1\<rparr>))
         else Inl (k + 1, s)))"

lemma balance_body_gt:
  "k < length text \<Longrightarrow> balance_body text k s = Inl (k', s') \<Longrightarrow> k < k'"
  by (auto simp: balance_body_def Let_def split: if_splits
           intro: skip_line_comment_gt skip_block_comment_gt)

function balance_loop :: "string \<Rightarrow> nat \<Rightarrow> balance \<Rightarrow> nat option" where
  \<comment> \<open>\<open>None\<close>: the loop ran to the end of the text and \<open>end\<close> is still \<open>None\<close>\<close>
  "balance_loop text k s =
     (if k < length text then
        (case balance_body text k s of
           Inl (k', s') \<Rightarrow> balance_loop text k' s'
         | Inr e \<Rightarrow> Some e)
      else None)"
  by pat_completeness auto
termination
  by (relation "measure (\<lambda>(text, k, s). length text - k)")
     (auto intro!: diff_less_mono2 dest: balance_body_gt)

definition extract_ship_list_region :: "string \<Rightarrow> span option" where
  "extract_ship_list_region text =
     (case first_key text ship_list_keys of
        None \<Rightarrow> None
      | Some (key_pos, key_len) \<Rightarrow>
         (case find_from text '':'' (key_pos + key_len) of
            None \<Rightarrow> None
          | Some colon \<Rightarrow>
             (case skip_to_token text (colon + 1) of
                Inl _ \<Rightarrow> None
              | Inr i \<Rightarrow>
                 if i \<ge> length text \<or> text ! i \<noteq> CHR ''['' then None
                 else
                   (case balance_loop text i
                           \<lparr>bdepth = 0, in_dq = False, in_sq = False, esc = False\<rparr> of
                      None \<Rightarrow> None
                    | Some e \<Rightarrow> Some (i, e)))))"

text \<open>
  For comparison, the \<open>balance\<close> primitive as section 4.1 of the specification words it: it
  walks forward from an opening bracket, tracks single- and double-quote string state, with
  a backslash making the next character of a string inert, and the nesting depth of
  \<open>open_ch\<close> and \<open>close_ch\<close>; comments are skipped outside strings. It is not taken from the
  source.
\<close>

definition spec_balance_body ::
  "char \<Rightarrow> char \<Rightarrow> string \<Rightarrow> nat \<Rightarrow> balance \<Rightarrow> (nat \<times> balance) + nat" where
  "spec_balance_body open_ch close_ch text k s =
     (let ch = text ! k in
      if in_dq s \<or> in_sq s then
        (if esc s then Inl (k + 1, s\<lparr>esc := False\<rparr>)
         else if ch = BSL then Inl (k + 1, s\<lparr>esc := True\<rparr>)
         else if in_dq s \<and> ch = DQ then Inl (k + 1, s\<lparr>in_dq := False\<rparr>)
         else if in_sq s \<and> ch = SQ then Inl (k + 1, s\<lparr>in_sq := False\<rparr>)
         else Inl (k + 1, s))
      else if slice text k (k + 2) = ''//'' \<or> ch = CHR ''#'' then Inl (skip_line_comment text k, s)
      else if slice text k (k + 2) = ''/*'' then Inl (skip_block_comment text k, s)
      else if ch = DQ then Inl (k + 1, s\<lparr>in_dq := True\<rparr>)
      else if ch = SQ then Inl (k + 1, s\<lparr>in_sq := True\<rparr>)
      else if ch = open_ch then Inl (k + 1, s\<lparr>bdepth := bdepth s + 1\<rparr>)
      else if ch = close_ch then
        (if bdepth s - 1 = 0 then Inr (k + 1) else Inl (k + 1, s\<lparr>bdepth := bdepth s - 1\<rparr>))
      else Inl (k + 1, s))"

lemma spec_balance_body_gt:
  "k < length text \<Longrightarrow> spec_balance_body open_ch close_ch text k s = Inl (k', s') \<Longrightarrow> k < k'"
  by (auto simp: spec_balance_body_def Let_def split: if_splits
           intro: skip_line_comment_gt skip_block_comment_gt)

function spec_balance_loop :: "char \<Rightarrow> char \<Rightarrow> string \<Rightarrow> nat \<Rightarrow> balance \<Rightarrow> nat option" where
  "spec_balance_loop open_ch close_ch text k s =
     (if k < length text then
        (case spec_balance_body open_ch close_ch text k s of
           Inl (k', s') \<Rightarrow> spec_balance_loop open_ch close_ch text k' s'
         | Inr e \<Rightarrow> Some e)
      else None)"
  by pat_completeness auto
termination
  by (relation "measure (\<lambda>(open_ch, close_ch, text, k, s). length text - k)")
     (auto intro!: diff_less_mono2 dest: spec_balance_body_gt)

definition spec_balance :: "string \<Rightarrow> nat \<Rightarrow> char \<Rightarrow> char \<Rightarrow> nat option" where
  "spec_balance text start open_ch close_ch =
     spec_balance_loop open_ch close_ch text start
       \<lparr>bdepth = 0, in_dq = False, in_sq = False, esc = False\<rparr>"

definition doc_escaped_quote :: string where
  \<open>doc_escaped_quote = ''{"#ship-list": ["a'' @ [BSL] @ ''"]", "b"]}''\<close>

definition doc_unterminated :: string where
  \<open>doc_unterminated = ''{"#ship-list": ["a'' @ [BSL] @ ''"]"''\<close>

text \<open>
  C1. The claim: an escaped quote inside a quoted string does not end the string state of the
  bracket-balance scan, so the region returned ends just past the bracket matching the
  opening one. On the document below the scan of the source ends the string at the escaped
  quote and returns the region that ends at the bracket inside the string literal, offset
  21, where the balance primitive of the specification finds the matching bracket and
  returns 28.
\<close>

theorem extract_region_escaped_quote:
  \<open>extract_ship_list_region doc_escaped_quote = Some (15, 21) \<and>
   slice doc_escaped_quote 15 21 = ''["a'' @ [BSL] @ ''"]'' \<and>
   spec_balance doc_escaped_quote 15 (CHR ''['') (CHR '']'') = Some 28\<close>
  by code_simp

text \<open>
  C7. The claim: when the array has no matching closing bracket before the end of the text,
  the locator returns \<open>None\<close>. The function is total, so it always returns; on the document
  below, whose only closing bracket lies inside a string literal, it returns a region, where
  the balance primitive of the specification returns \<open>None\<close>.
\<close>

theorem extract_region_unterminated:
  \<open>extract_ship_list_region doc_unterminated = Some (15, 21) \<and>
   length doc_unterminated = 22 \<and>
   spec_balance doc_unterminated 15 (CHR ''['') (CHR '']'') = None\<close>
  by code_simp

section \<open>Regular expressions of Python's \<open>re\<close>\<close>

text \<open>
  The patterns of the source are values of \<open>rx\<close>, built as \<open>re.compile\<close> parses them. The
  matcher is the backtracking matcher of \<open>re\<close>, written as a list of successes: \<open>ms r text i c\<close>
  lists, in the order in which backtracking tries them, the end offsets (with the groups
  captured so far) of the ways \<open>r\<close> matches at offset \<open>i\<close>. The first element is the match
  \<open>re\<close> reports. Flags: \<open>Bol\<close> and \<open>Eol\<close> are \<open>^\<close> and \<open>$\<close> under \<open>re.M\<close>; the class of
  \<open>.\<close> is \<open>dot\<close> without \<open>re.S\<close> and \<open>any_char\<close> with it. No repeated pattern of the source
  matches the empty string, and an iteration that consumes nothing ends the repetition.
\<close>

datatype rx =
    Lit string
  | Cls "char \<Rightarrow> bool"
  | Bol
  | Eol
  | Seq rx rx
  | Alt rx rx
  | Opt rx
  | Star rx
  | LazyStar rx
  | Grp string rx

type_synonym caps = "string \<rightharpoonup> span"

fun star :: "(nat \<Rightarrow> caps \<Rightarrow> (nat \<times> caps) list) \<Rightarrow> nat \<Rightarrow> nat \<Rightarrow> caps \<Rightarrow> (nat \<times> caps) list" where
  \<comment> \<open>greedy repetition of a body \<open>f\<close>; the second argument bounds the iterations left by the
      number of characters left\<close>
  "star f 0 i c = [(i, c)]"
| "star f (Suc n) i c =
     concat (map (\<lambda>(j, c'). if i < j then star f n j c' else []) (f i c)) @ [(i, c)]"

fun lazy_star :: "(nat \<Rightarrow> caps \<Rightarrow> (nat \<times> caps) list) \<Rightarrow> nat \<Rightarrow> nat \<Rightarrow> caps \<Rightarrow> (nat \<times> caps) list" where
  "lazy_star f 0 i c = [(i, c)]"
| "lazy_star f (Suc n) i c =
     (i, c) # concat (map (\<lambda>(j, c'). if i < j then lazy_star f n j c' else []) (f i c))"

primrec ms :: "rx \<Rightarrow> string \<Rightarrow> nat \<Rightarrow> caps \<Rightarrow> (nat \<times> caps) list" where
  "ms (Lit s) text i c = (if startswith text s i then [(i + length s, c)] else [])"
| "ms (Cls p) text i c = (if i < length text \<and> p (text ! i) then [(i + 1, c)] else [])"
| "ms Bol text i c = (if i = 0 \<or> text ! (i - 1) = NL then [(i, c)] else [])"
| "ms Eol text i c = (if i = length text \<or> (i < length text \<and> text ! i = NL) then [(i, c)] else [])"
| "ms (Seq a b) text i c = concat (map (\<lambda>(j, c'). ms b text j c') (ms a text i c))"
| "ms (Alt a b) text i c = ms a text i c @ ms b text i c"
| "ms (Opt a) text i c = ms a text i c @ [(i, c)]"
| "ms (Star a) text i c = star (ms a text) (length text - i) i c"
| "ms (LazyStar a) text i c = lazy_star (ms a text) (length text - i) i c"
| "ms (Grp g a) text i c = map (\<lambda>(j, c'). (j, c'(g \<mapsto> (i, j)))) (ms a text i c)"

abbreviation Plus :: "rx \<Rightarrow> rx" where
  "Plus a \<equiv> Seq a (Star a)"

fun seqs :: "rx list \<Rightarrow> rx" where
  "seqs [] = Lit []"
| "seqs [r] = r"
| "seqs (r # rs) = Seq r (seqs rs)"

fun alts :: "rx list \<Rightarrow> rx" where
  \<comment> \<open>\<open>a|b|...\<close>; the empty alternation is the empty pattern\<close>
  "alts [] = Lit []"
| "alts [r] = r"
| "alts (r # rs) = Alt r (alts rs)"

definition dot :: "char \<Rightarrow> bool" where "dot c = (c \<noteq> NL)"
definition any_char :: "char \<Rightarrow> bool" where "any_char c = True"
definition none_of :: "string \<Rightarrow> char \<Rightarrow> bool" where "none_of s c = (c \<notin> set s)"
definition one_of :: "string \<Rightarrow> char \<Rightarrow> bool" where "one_of s c = (c \<in> set s)"

abbreviation ws :: rx where "ws \<equiv> Star (Cls isspace)"

record rmatch =
  m_start :: nat
  m_end :: nat
  m_groups :: caps

fun search_in :: "rx \<Rightarrow> string \<Rightarrow> nat list \<Rightarrow> rmatch option" where
  \<comment> \<open>the first start offset of the list at which the pattern matches, with its first match\<close>
  "search_in r text [] = None"
| "search_in r text (p # ps) =
     (case ms r text p Map.empty of
        [] \<Rightarrow> search_in r text ps
      | (e, c) # _ \<Rightarrow> Some \<lparr>m_start = p, m_end = e, m_groups = c\<rparr>)"

definition search_from :: "rx \<Rightarrow> string \<Rightarrow> nat \<Rightarrow> rmatch option" where
  "search_from r text pos = search_in r text [pos..<Suc (length text)]"

definition search :: "rx \<Rightarrow> string \<Rightarrow> rmatch option" where
  \<comment> \<open>\<open>rx.search(text)\<close>\<close>
  "search r text = search_from r text 0"

definition group :: "string \<Rightarrow> rmatch \<Rightarrow> string \<Rightarrow> string" where
  \<comment> \<open>\<open>m.group(g)\<close> of a group that took part in the match\<close>
  "group text m g = (case m_groups m g of Some (a, b) \<Rightarrow> slice text a b | None \<Rightarrow> [])"

definition subn1 :: "rx \<Rightarrow> (rmatch \<Rightarrow> string) \<Rightarrow> string \<Rightarrow> string \<times> nat" where
  \<comment> \<open>\<open>rx.subn(repl, text, count=1)\<close> with a function \<open>repl\<close>\<close>
  "subn1 r repl text =
     (case search r text of
        None \<Rightarrow> (text, 0)
      | Some m \<Rightarrow> (take (m_start m) text @ repl m @ drop (m_end m) text, 1))"

section \<open>The banner stamp: \<open>_upsert_editor_banner_simple\<close>\<close>

definition banner_rx :: rx where
  \<open>banner_rx = seqs
     [Bol, Grp ''indent'' (Star (Cls (one_of [CHR '' '', TAB]))),
      Opt (Lit ''"''), Lit ''#OrionShipEditor"'', ws, Lit '':'', ws,
      Lit ''"'', Star (Alt (Seq (Lit [BSL]) (Cls dot)) (Cls (none_of [DQ, BSL]))), Lit ''"'',
      ws, Opt (Lit '',''), ws, Eol]\<close>

definition replace_char :: "char \<Rightarrow> string \<Rightarrow> string \<Rightarrow> string" where
  \<comment> \<open>\<open>s.replace(old, new)\<close> for a one-character \<open>old\<close>\<close>
  "replace_char old new s = concat (map (\<lambda>ch. if ch = old then new else [ch]) s)"

definition upsert_editor_banner_simple :: "string \<Rightarrow> string \<Rightarrow> string" where
  \<comment> \<open>the first argument is the value of \<open>self._format_editor_banner_value()\<close>, which reads
      the clock\<close>
  \<open>upsert_editor_banner_simple banner_value text =
     (let lb = (if contains text [CR, NL] then [CR, NL] else [NL]);
          banner = replace_char DQ [BSL, DQ] (replace_char BSL [BSL, BSL] banner_value)
      in if search banner_rx text \<noteq> None then
           fst (subn1 banner_rx
                  (\<lambda>m. group text m ''indent'' @ ''"#OrionShipEditor": "'' @ banner @ ''",'') text)
         else
           (case find text ''{'' of
              None \<Rightarrow> text
            | Some brace \<Rightarrow>
                (let ins = lb @ ''  "#OrionShipEditor": "'' @ banner @ ''",''
                 in take (brace + 1) text @ ins @ drop (brace + 1) text)))\<close>

text \<open>
  C10. If no line of the document matches the banner pattern and the document has no opening
  brace, the banner stamp returns the document unchanged.
\<close>

theorem banner_no_brace_identity:
  "search banner_rx text = None \<Longrightarrow> \<not> contains text ''{'' \<Longrightarrow>
   upsert_editor_banner_simple banner_value text = text"
  by (simp add: upsert_editor_banner_simple_def contains_def Let_def)

theorem banner_no_brace_identity_witness:
  "search banner_rx ''ship-list: []'' = None \<and> \<not> contains ''ship-list: []'' ''{'' \<and>
   upsert_editor_banner_simple ''v'' ''ship-list: []'' = ''ship-list: []''"
proof -
  have h1: "search banner_rx ''ship-list: []'' = None" by code_simp
  have h2: "\<not> contains ''ship-list: []'' ''{''" by code_simp
  from banner_no_brace_identity[OF h1 h2] h1 h2 show ?thesis by blast
qed

text \<open>
  C8. The claim: stamping twice with the same banner value yields the same document as
  stamping once. On a document whose first opening brace is followed by more text on the same
  line, the inserted banner is not a line of its own, the pattern does not match it, and the
  second stamp inserts a second banner.
\<close>

theorem banner_twice_duplicates:
  \<open>upsert_editor_banner_simple ''v'' ''{"a":1}'' =
     ''{'' @ [NL] @ ''  "#OrionShipEditor": "v","a":1}'' \<and>
   upsert_editor_banner_simple ''v'' (upsert_editor_banner_simple ''v'' ''{"a":1}'') =
     ''{'' @ [NL] @ ''  "#OrionShipEditor": "v",'' @ [NL] @ ''  "#OrionShipEditor": "v","a":1}'' \<and>
   upsert_editor_banner_simple ''v'' (upsert_editor_banner_simple ''v'' ''{"a":1}'') \<noteq>
     upsert_editor_banner_simple ''v'' ''{"a":1}''\<close>
  by code_simp

section \<open>Values and their rendering\<close>

text \<open>
  The values of a record, as \<open>hjson\<close> and the forms hand them over. A float is carried by
  the text \<open>str\<close> gives for it. A dict is the list of its items in insertion order.
\<close>

datatype pyval =
    VNone
  | VBool bool
  | VInt int
  | VFloat string
  | VStr string
  | VList "pyval list"
  | VDict "(string \<times> pyval) list"

definition digit_char :: "nat \<Rightarrow> char" where
  "digit_char d = char_of (48 + d)"

fun str_nat :: "nat \<Rightarrow> string" where
  "str_nat n = (if n < 10 then [digit_char n] else str_nat (n div 10) @ [digit_char (n mod 10)])"

definition str_int :: "int \<Rightarrow> string" where
  "str_int i = (if i < 0 then CHR ''-'' # str_nat (nat (- i)) else str_nat (nat i))"

fun py_str :: "pyval \<Rightarrow> string" where
  \<comment> \<open>\<open>str(v)\<close> of a scalar\<close>
  "py_str VNone = ''None''"
| "py_str (VBool b) = (if b then ''True'' else ''False'')"
| "py_str (VInt i) = str_int i"
| "py_str (VFloat s) = s"
| "py_str (VStr s) = s"
| "py_str (VList xs) = []"
| "py_str (VDict d) = []"

fun repr_hjson_scalar :: "pyval \<Rightarrow> py_error + string" where
  "repr_hjson_scalar (VDict d) = Inl TypeError"
| "repr_hjson_scalar (VList xs) = Inl TypeError"
| "repr_hjson_scalar (VBool b) = Inr (if b then ''true'' else ''false'')"
| "repr_hjson_scalar (VInt i) = Inr (py_str (VInt i))"
| "repr_hjson_scalar (VFloat s) = Inr (py_str (VFloat s))"
| "repr_hjson_scalar v =
     Inr ([DQ] @ replace_char DQ [BSL, DQ] (replace_char BSL [BSL, BSL] (py_str v)) @ [DQ])"

section \<open>The scalar patcher: \<open>_patch_scalar_in_block\<close>\<close>

definition comment_rx :: rx where
  \<comment> \<open>\<open>(?:\s*(?://[^\n]*|#[^\n]*|/\*.*?\*/))*\<close> under \<open>re.S\<close>\<close>
  "comment_rx =
     Star (Seq ws (alts
       [Seq (Lit ''//'') (Star (Cls (none_of [NL]))),
        Seq (Lit ''#'') (Star (Cls (none_of [NL]))),
        seqs [Lit ''/*'', LazyStar (Cls any_char), Lit ''*/'']]))"

definition key_rx :: "string list \<Rightarrow> rx" where
  \<comment> \<open>\<open>(?:"(?:k1|k2)"|(?:k1|k2))\<close>, each alias escaped by \<open>re.escape\<close>, that is, literal\<close>
  "key_rx key_names =
     Alt (seqs [Lit [DQ], alts (map Lit key_names), Lit [DQ]]) (alts (map Lit key_names))"

definition value_tok :: rx where
  "value_tok = alts
     [seqs [Lit [DQ], Star (Alt (Seq (Lit [BSL]) (Cls any_char)) (Cls (none_of [DQ, BSL]))), Lit [DQ]],
      seqs [Lit [SQ], Star (Alt (Seq (Lit [BSL]) (Cls any_char)) (Cls (none_of [SQ, BSL]))),
            Plus (Lit [SQ])],
      Plus (Cls (none_of ('','' @ [CR, NL] @ ''}]'')))]"

definition head_rx :: "string list \<Rightarrow> rx" where
  "head_rx key_names = seqs [key_rx key_names, ws, Lit '':'', ws, comment_rx]"

definition scalar_rx :: "string list \<Rightarrow> rx" where
  "scalar_rx key_names = Seq (Grp ''1'' (head_rx key_names)) (Grp ''2'' value_tok)"

definition patch_scalar_in_block :: "string \<Rightarrow> string list \<Rightarrow> string \<Rightarrow> string \<times> nat" where
  "patch_scalar_in_block block key_names value_str =
     subn1 (scalar_rx key_names) (\<lambda>m. group block m ''1'' @ value_str) block"

section \<open>Pretty printers\<close>

definition line_break :: "char \<Rightarrow> bool" where
  \<comment> \<open>the line boundaries of \<open>str.splitlines\<close> below code point 256\<close>
  "line_break c = (of_char c \<in> {10, 11, 12, 13, 28, 29, 30, 133 :: nat})"

function splitlines :: "string \<Rightarrow> string list" where
  "splitlines s =
     (if s = [] then []
      else (case dropWhile (\<lambda>c. \<not> line_break c) s of
              [] \<Rightarrow> [s]
            | b # r \<Rightarrow>
                takeWhile (\<lambda>c. \<not> line_break c) s #
                splitlines (if b = CR \<and> take 1 r = [NL] then drop 1 r else r)))"
  by pat_completeness auto
termination
proof (relation "measure length", goal_cases)
  case 1
  show ?case by simp
next
  case (2 s b r)
  have "length (dropWhile (\<lambda>c. \<not> line_break c) s) \<le> length s"
    by (rule length_dropWhile_le)
  with 2(2) have "length r < length s" by simp
  then have "length r - Suc 0 < length s" by arith
  with \<open>length r < length s\<close> show ?case by simp
qed
fun join :: "string \<Rightarrow> string list \<Rightarrow> string" where
  \<comment> \<open>\<open>sep.join(xs)\<close>\<close>
  "join sep [] = []"
| "join sep [x] = x"
| "join sep (x # xs) = x @ sep @ join sep xs"

definition add_comma_last :: "string list \<Rightarrow> string list" where
  \<comment> \<open>\<open>lines[-1] += ","\<close>\<close>
  "add_comma_last ls = (if ls = [] then [] else butlast ls @ [last ls @ '',''])"

definition block_lines :: "string \<Rightarrow> string \<Rightarrow> string \<Rightarrow> string list" where
  \<comment> \<open>the lines one rendered value appends to \<open>lines\<close>; \<open>head\<close> is the key and colon of a
      map entry, empty for a list item\<close>
  "block_lines inner head v_str =
     (if NL \<in> set v_str then
        (case splitlines v_str of
           [] \<Rightarrow> []
         | first # rest \<Rightarrow> add_comma_last ((inner @ head @ first) # map (\<lambda>r. inner @ r) rest))
      else [inner @ head @ v_str @ '',''])"

definition drop_last_comma :: "string list \<Rightarrow> string list" where
  \<comment> \<open>\<open>if len(lines) > 1 and lines[-1].endswith(","): lines[-1] = lines[-1][:-1]\<close>\<close>
  "drop_last_comma ls =
     (if length ls > 1 \<and> last ls \<noteq> [] \<and> last (last ls) = CHR '',''
      then butlast ls @ [butlast (last ls)] else ls)"

definition scalar_text :: "pyval \<Rightarrow> string" where
  \<comment> \<open>\<open>_repr_hjson_scalar\<close> on a scalar, where it does not raise\<close>
  "scalar_text v = (case repr_hjson_scalar v of Inr s \<Rightarrow> s | Inl e \<Rightarrow> [])"

definition key_str :: "string \<Rightarrow> string" where
  "key_str k = [DQ] @ replace_char DQ [BSL, DQ] k @ [DQ]"

text \<open>
  \<open>_repr_hjson_value_pretty\<close> with \<open>_repr_hjson_map_pretty\<close> and \<open>_repr_hjson_list_pretty\<close>
  unfolded into it, so that the recursion is on the value.
\<close>

primrec repr_hjson_value_pretty :: "pyval \<Rightarrow> string \<Rightarrow> string \<Rightarrow> string" where
  "repr_hjson_value_pretty VNone indent step = scalar_text VNone"
| "repr_hjson_value_pretty (VBool b) indent step = scalar_text (VBool b)"
| "repr_hjson_value_pretty (VInt i) indent step = scalar_text (VInt i)"
| "repr_hjson_value_pretty (VFloat f) indent step = scalar_text (VFloat f)"
| "repr_hjson_value_pretty (VStr s) indent step = scalar_text (VStr s)"
| "repr_hjson_value_pretty (VList arr) indent step =
     join [NL]
       (''['' #
        concat (map (\<lambda>v. block_lines (indent @ step) []
                            (repr_hjson_value_pretty v (indent @ step) step)) arr) @
        [indent @ '']''])"
| "repr_hjson_value_pretty (VDict d) indent step =
     join [NL]
       (drop_last_comma
          (''{'' #
           concat (map (\<lambda>(k, val_str). block_lines (indent @ step) (key_str k @ '': '') val_str)
                     (map (map_prod id (\<lambda>val. repr_hjson_value_pretty val (indent @ step) step)) d))) @
        [indent @ ''}''])"

definition repr_hjson_map_pretty :: "(string \<times> pyval) list \<Rightarrow> string \<Rightarrow> string \<Rightarrow> string" where
  "repr_hjson_map_pretty d indent step = repr_hjson_value_pretty (VDict d) indent step"

definition repr_hjson_list_pretty :: "pyval list \<Rightarrow> string \<Rightarrow> string \<Rightarrow> string" where
  "repr_hjson_list_pretty arr indent step = repr_hjson_value_pretty (VList arr) indent step"

definition repr_hjson_list :: "pyval list \<Rightarrow> py_error + string" where
  \<comment> \<open>\<open>_repr_hjson_list\<close>: \<open>[a, b, c]\<close>; an element that is no scalar raises\<close>
  "repr_hjson_list arr =
     (if list_ex (\<lambda>v. repr_hjson_scalar v = Inl TypeError) arr then Inl TypeError
      else Inr (''['' @ join '', '' (map scalar_text arr) @ '']''))"

section \<open>The array patcher: \<open>_patch_list_in_block\<close>\<close>

definition line_end :: "string \<Rightarrow> nat \<Rightarrow> nat" where
  \<comment> \<open>the local \<open>skip_line_comment\<close>: the offset of the next newline at or after \<open>j\<close>, or the
      length of the block\<close>
  "line_end block j = j + length (takeWhile (\<lambda>c. c \<noteq> NL) (drop j block))"

definition rfind_nl :: "string \<Rightarrow> nat \<Rightarrow> nat" where
  \<comment> \<open>\<open>block.rfind("\n", 0, pos) + 1\<close>\<close>
  "rfind_nl block pos =
     length (take pos block) - length (takeWhile (\<lambda>c. c \<noteq> NL) (rev (take pos block)))"

lemma slice_first: "i < length block \<Longrightarrow> slice block i (i + 2) = a # as \<Longrightarrow> block ! i = a"
  by (simp add: slice_def Cons_nth_drop_Suc[symmetric])

text \<open>
  The loop that skips from the end of the key head to the opening bracket: \<open>Inr i\<close> when it
  ends (at a bracket or at the end of the block), \<open>Inl ()\<close> when it meets another token and
  the function falls back to the scalar patcher.
\<close>

function skip_to_bracket :: "string \<Rightarrow> nat \<Rightarrow> unit + nat" where
  "skip_to_bracket block i =
     (if i < length block then
        (let ch = block ! i in
         if slice block i (i + 2) = ''//'' \<or> ch = CHR ''#'' then skip_to_bracket block (line_end block i)
         else if slice block i (i + 2) = ''/*'' then skip_to_bracket block (skip_block_comment block i)
         else if isspace ch then skip_to_bracket block (i + 1)
         else if ch = CHR ''['' then Inr i
         else Inl ())
      else Inr i)"
  by pat_completeness auto
termination
proof (relation "measure (\<lambda>(block, i). length block - i)", goal_cases)
  case 1
  show ?case by simp
next
  case (2 block i ch)
  then have "block ! i \<noteq> NL" by (auto dest: slice_first)
  with 2(1) have "i < line_end block i"
    by (simp add: line_end_def Cons_nth_drop_Suc[symmetric])
  with 2(1) show ?case by simp
next
  case (3 block i ch)
  with skip_block_comment_gt[of i block] show ?case by simp
next
  case (4 block i ch)
  then show ?case by simp
qed

definition list_balance_body :: "string \<Rightarrow> nat \<Rightarrow> balance \<Rightarrow> (nat \<times> balance) + nat" where
  "list_balance_body block j s =
     (let ch = block ! j in
      if \<not> (in_dq s \<or> in_sq s) \<and> (slice block j (j + 2) = ''//'' \<or> ch = CHR ''#'')
      then Inl (line_end block j, s)
      else if \<not> (in_dq s \<or> in_sq s) \<and> slice block j (j + 2) = ''/*''
      then Inl (skip_block_comment block j, s)
      else if in_dq s \<or> in_sq s then
        (if esc s then Inl (j + 1, s\<lparr>esc := False\<rparr>)
         else if ch = BSL then Inl (j + 1, s\<lparr>esc := True\<rparr>)
         else if in_dq s \<and> ch = DQ then Inl (j + 1, s\<lparr>in_dq := False\<rparr>)
         else if in_sq s \<and> ch = SQ then Inl (j + 1, s\<lparr>in_sq := False\<rparr>)
         else Inl (j + 1, s))
      else
        (if ch = DQ then Inl (j + 1, s\<lparr>in_dq := True\<rparr>)
         else if ch = SQ then Inl (j + 1, s\<lparr>in_sq := True\<rparr>)
         else if ch = CHR ''['' then Inl (j + 1, s\<lparr>bdepth := bdepth s + 1\<rparr>)
         else if ch = CHR '']'' then
           (if bdepth s - 1 = 0 then Inr (j + 1) else Inl (j + 1, s\<lparr>bdepth := bdepth s - 1\<rparr>))
         else Inl (j + 1, s)))"

lemma list_balance_body_gt:
  "j < length block \<Longrightarrow> list_balance_body block j s = Inl (j', s') \<Longrightarrow> j < j'"
proof -
  assume j: "j < length block" and b: "list_balance_body block j s = Inl (j', s')"
  have hash: "block ! j \<noteq> NL \<Longrightarrow> j < line_end block j"
    using j by (simp add: line_end_def Cons_nth_drop_Suc[symmetric])
  have sl: "slice block j (j + 2) = ''//'' \<Longrightarrow> j < line_end block j"
    using hash slice_first[OF j] by fastforce
  from b show ?thesis
    using hash sl skip_block_comment_gt[OF j]
    by (auto simp: list_balance_body_def Let_def split: if_splits)
qed

function list_balance_loop :: "string \<Rightarrow> nat \<Rightarrow> balance \<Rightarrow> nat option" where
  \<comment> \<open>the offset just past the bracket that brings the depth back to zero; \<open>None\<close> when the
      loop runs to the end of the block\<close>
  "list_balance_loop block j s =
     (if j < length block then
        (case list_balance_body block j s of
           Inl (j', s') \<Rightarrow> list_balance_loop block j' s'
         | Inr e \<Rightarrow> Some e)
      else None)"
  by pat_completeness auto
termination
  by (relation "measure (\<lambda>(block, j, s). length block - j)")
     (auto intro!: diff_less_mono2 dest: list_balance_body_gt)

definition patch_list_in_block ::
  "string \<Rightarrow> string list \<Rightarrow> string option \<Rightarrow> pyval list option \<Rightarrow> string \<times> nat" where
  "patch_list_in_block block key_names new_list_str new_list_obj =
     (case search (head_rx key_names) block of
        None \<Rightarrow> (block, 0)
      | Some mh \<Rightarrow>
         (let pos = m_end mh;
              n = length block;
              line_start = rfind_nl block pos;
              base_indent = takeWhile (one_of [CHR '' '', TAB]) (slice block line_start pos)
          in case skip_to_bracket block pos of
               Inl _ \<Rightarrow>
                 (if new_list_str = None \<and> new_list_obj \<noteq> None then
                    patch_scalar_in_block block key_names
                      (repr_hjson_list_pretty (the new_list_obj) base_indent ''  '')
                  else
                    patch_scalar_in_block block key_names
                      (case new_list_str of
                         None \<Rightarrow> ''[]''
                       | Some s \<Rightarrow> if s = [] then ''[]'' else s))
             | Inr i \<Rightarrow>
                 if i \<ge> n \<or> block ! i \<noteq> CHR ''['' then (block, 0)
                 else
                   (case list_balance_loop block i
                           \<lparr>bdepth = 0, in_dq = False, in_sq = False, esc = False\<rparr> of
                      None \<Rightarrow> (block, 0)
                    | Some e \<Rightarrow>
                        (let rendered =
                               (if new_list_str = None \<and> new_list_obj \<noteq> None then
                                  repr_hjson_list_pretty (the new_list_obj) base_indent ''  ''
                                else (case new_list_str of None \<Rightarrow> ''[]'' | Some s \<Rightarrow> s))
                         in (take i block @ rendered @ drop e block, 1)))))"

section \<open>The update loop of \<open>_surgical_save_current_ship\<close>\<close>

definition key_forms :: "string \<Rightarrow> string list" where
  "key_forms k =
     [k] @ (if k = ''Key'' then [''key''] else []) @ (if k = ''name'' then [''Name''] else []) @
     (if k = ''side'' then [''Side''] else []) @
     (if k = ''artfileroot'' then [''Artfileroot''] else [])"

definition is_dict :: "pyval \<Rightarrow> bool" where
  "is_dict v = (case v of VDict d \<Rightarrow> True | _ \<Rightarrow> False)"

definition patch_field :: "string \<Rightarrow> string \<Rightarrow> pyval \<Rightarrow> py_error + (string \<times> nat)" where
  \<comment> \<open>the patcher call of one pass of the loop, for the update \<open>k: v\<close>\<close>
  "patch_field block k v =
     (case v of
        VList arr \<Rightarrow>
          (if list_ex is_dict arr \<or> hd (key_forms k) = ''torpedostart''
           then Inr (patch_list_in_block block (key_forms k) None (Some arr))
           else (case repr_hjson_list arr of
                   Inl e \<Rightarrow> Inl e
                 | Inr vstr \<Rightarrow> Inr (patch_list_in_block block (key_forms k) (Some vstr) None)))
      | _ \<Rightarrow>
          (case repr_hjson_scalar v of
             Inl e \<Rightarrow> Inl e
           | Inr vstr \<Rightarrow> Inr (patch_scalar_in_block block (key_forms k) vstr)))"

definition update_step :: "string \<Rightarrow> string \<times> pyval \<Rightarrow> py_error + string" where
  \<comment> \<open>one pass: \<open>if n > 0: block = new_block\<close>\<close>
  "update_step block kv =
     (case patch_field block (fst kv) (snd kv) of
        Inl e \<Rightarrow> Inl e
      | Inr (new_block, n) \<Rightarrow> Inr (if n > 0 then new_block else block))"

fun apply_updates :: "string \<Rightarrow> (string \<times> pyval) list \<Rightarrow> py_error + string" where
  \<comment> \<open>the loop over the updates, already in the order of \<open>sorted(updates.keys())\<close>\<close>
  "apply_updates block [] = Inr block"
| "apply_updates block (kv # kvs) =
     (case update_step block kv of Inl e \<Rightarrow> Inl e | Inr block' \<Rightarrow> apply_updates block' kvs)"

section \<open>Facts about the matcher\<close>

lemma star_rel:
  assumes refl: "\<And>x. Q x x"
    and trans: "\<And>x y z. Q x y \<Longrightarrow> Q y z \<Longrightarrow> Q x z"
    and step: "\<And>i c y. y \<in> set (f i c) \<Longrightarrow> Q (i, c) y"
  shows "y \<in> set (star f n i c) \<Longrightarrow> Q (i, c) y"
proof (induction n arbitrary: i c)
  case 0
  then show ?case using refl by simp
next
  case (Suc n)
  from Suc.prems consider "y = (i, c)"
    | j c' where "(j, c') \<in> set (f i c)" "i < j" "y \<in> set (star f n j c')"
    by (auto split: if_splits)
  then show ?case
  proof cases
    case 1
    then show ?thesis using refl by simp
  next
    case 2
    from step[OF 2(1)] Suc.IH[OF 2(3)] show ?thesis by (rule trans)
  qed
qed

lemma lazy_star_rel:
  assumes refl: "\<And>x. Q x x"
    and trans: "\<And>x y z. Q x y \<Longrightarrow> Q y z \<Longrightarrow> Q x z"
    and step: "\<And>i c y. y \<in> set (f i c) \<Longrightarrow> Q (i, c) y"
  shows "y \<in> set (lazy_star f n i c) \<Longrightarrow> Q (i, c) y"
proof (induction n arbitrary: i c)
  case 0
  then show ?case using refl by simp
next
  case (Suc n)
  from Suc.prems consider "y = (i, c)"
    | j c' where "(j, c') \<in> set (f i c)" "i < j" "y \<in> set (lazy_star f n j c')"
    by (auto split: if_splits)
  then show ?case
  proof cases
    case 1
    then show ?thesis using refl by simp
  next
    case 2
    from step[OF 2(1)] Suc.IH[OF 2(3)] show ?thesis by (rule trans)
  qed
qed

definition within :: "string \<Rightarrow> nat \<times> caps \<Rightarrow> nat \<times> caps \<Rightarrow> bool" where
  "within text x y = (fst x \<le> fst y \<and> (fst x \<le> length text \<longrightarrow> fst y \<le> length text))"

lemma startswith_bound: "startswith text s i \<Longrightarrow> i + length s \<le> length text"
proof -
  assume a: "startswith text s i"
  then have "length s \<le> length (drop i text)"
    by (intro take_eq_length) (simp add: startswith_def)
  moreover from a have "i \<le> length text" by (simp add: startswith_def)
  ultimately show ?thesis by simp
qed

lemma ms_within: "y \<in> set (ms r text i c) \<Longrightarrow> within text (i, c) y"
proof (induction r arbitrary: i c y)
  case (Lit s)
  then show ?case by (auto simp: within_def split: if_splits dest: startswith_bound)
next
  case (Cls p)
  then show ?case by (auto simp: within_def split: if_splits)
next
  case Bol
  then show ?case by (auto simp: within_def split: if_splits)
next
  case Eol
  then show ?case by (auto simp: within_def split: if_splits)
next
  case (Seq a b)
  from Seq.prems obtain j c' where 1: "(j, c') \<in> set (ms a text i c)" and 2: "y \<in> set (ms b text j c')"
    by auto
  from Seq.IH(1)[OF 1] Seq.IH(2)[OF 2] show ?case by (auto simp: within_def)
next
  case (Alt a b)
  from Alt.prems have "y \<in> set (ms a text i c) \<or> y \<in> set (ms b text i c)" by simp
  with Alt.IH show ?case by blast
next
  case (Opt a)
  from Opt.prems have "y \<in> set (ms a text i c) \<or> y = (i, c)" by auto
  then show ?case
  proof
    assume "y \<in> set (ms a text i c)"
    then show ?thesis by (rule Opt.IH)
  next
    assume "y = (i, c)"
    then show ?thesis by (simp add: within_def)
  qed
next
  case (Star a)
  have "within text (i, c) y"
  proof (rule star_rel[where Q = "within text" and f = "ms a text"])
    show "y \<in> set (star (ms a text) (length text - i) i c)" using Star.prems by simp
  qed (auto simp: within_def dest: Star.IH)
  then show ?case .
next
  case (LazyStar a)
  have "within text (i, c) y"
  proof (rule lazy_star_rel[where Q = "within text" and f = "ms a text"])
    show "y \<in> set (lazy_star (ms a text) (length text - i) i c)" using LazyStar.prems by simp
  qed (auto simp: within_def dest: LazyStar.IH)
  then show ?case .
next
  case (Grp g a)
  then show ?case by (auto simp: within_def dest!: Grp.IH)
qed

lemma search_in_None: "(\<And>p. ms r text p Map.empty = []) \<Longrightarrow> search_in r text ps = None"
  by (induction ps) simp_all

lemma search_in_Some:
  "search_in r text ps = Some m \<Longrightarrow>
   m_start m \<in> set ps \<and> (m_end m, m_groups m) \<in> set (ms r text (m_start m) Map.empty)"
proof (induction ps)
  case Nil
  then show ?case by simp
next
  case (Cons p ps)
  show ?case
  proof (cases "ms r text p Map.empty")
    case Nil
    with Cons show ?thesis by simp
  next
    case (Cons y ys)
    obtain e c where "y = (e, c)" by (cases y)
    with Cons Cons.prems show ?thesis by auto
  qed
qed

lemma search_Some:
  "search r text = Some m \<Longrightarrow>
   m_start m \<le> m_end m \<and> m_end m \<le> length text \<and>
   (m_end m, m_groups m) \<in> set (ms r text (m_start m) Map.empty)"
proof -
  assume "search r text = Some m"
  then have 1: "m_start m \<in> set [0..<Suc (length text)]"
    and 2: "(m_end m, m_groups m) \<in> set (ms r text (m_start m) Map.empty)"
    using search_in_Some[of r "text" "[0..<Suc (length text)]" m]
    by (simp_all add: search_def search_from_def)
  from ms_within[OF 2] 1 2 show ?thesis by (auto simp: within_def)
qed

section \<open>Patching a key that is absent\<close>

lemma find_pre_startswith:
  "i \<le> length xs \<Longrightarrow> take (length k) (drop i xs) = k \<Longrightarrow> find_pre k xs \<noteq> None"
proof (induction xs arbitrary: i)
  case Nil
  then show ?case by auto
next
  case (Cons x xs)
  show ?case
  proof (cases i)
    case 0
    with Cons.prems show ?thesis by simp
  next
    case (Suc j)
    with Cons.prems Cons.IH[of j] show ?thesis by auto
  qed
qed

lemma startswith_contains: "startswith text k i \<Longrightarrow> contains text k"
  using find_pre_startswith[of i "text" k]
  by (simp add: startswith_def contains_def find_def find_from_def)

lemma ms_alts_Lit:
  "ks \<noteq> [] \<Longrightarrow> ms (alts (map Lit ks)) text i c \<noteq> [] \<Longrightarrow> \<exists>k\<in>set ks. startswith text k i"
proof (induction ks)
  case Nil
  then show ?case by simp
next
  case (Cons k ks)
  show ?case
  proof (cases ks)
    case Nil
    with Cons.prems show ?thesis by (simp split: if_splits)
  next
    case (Cons k' ks')
    with Cons.prems Cons.IH show ?thesis by (auto split: if_splits)
  qed
qed

lemma ms_alts_absent:
  assumes "ks \<noteq> []" and "\<forall>a\<in>set ks. \<not> contains text a"
  shows "ms (alts (map Lit ks)) text i c = []"
  using assms ms_alts_Lit[of ks "text" i c] startswith_contains by blast

lemma ms_key_rx_absent:
  assumes "ks \<noteq> []" and "\<forall>a\<in>set ks. \<not> contains text a"
  shows "ms (key_rx ks) text i c = []"
  using ms_alts_absent[OF assms] by (simp add: key_rx_def)

lemma ms_head_rx_absent:
  assumes "ks \<noteq> []" and "\<forall>a\<in>set ks. \<not> contains text a"
  shows "ms (head_rx ks) text i c = []"
  using ms_key_rx_absent[OF assms] by (simp add: head_rx_def)

lemma search_head_absent:
  assumes "ks \<noteq> []" and "\<forall>a\<in>set ks. \<not> contains text a"
  shows "search (head_rx ks) text = None" and "search (scalar_rx ks) text = None"
  using ms_head_rx_absent[OF assms]
  by (simp_all add: search_def search_from_def scalar_rx_def search_in_None)

lemma key_forms_Cons: "\<exists>aliases. key_forms k = k # aliases"
  by (simp add: key_forms_def)

text \<open>
  C6. When none of the aliases of a key occurs in the object-span text, the scalar patcher
  and the array patcher return the text unchanged with count 0, and the pass of the update
  loop for that key leaves the block as it is: the loop goes on with the other updates on
  the same block (a value that cannot be rendered still raises).
\<close>

theorem absent_key_not_patched:
  "\<forall>a\<in>set (k # aliases). \<not> contains block a \<Longrightarrow>
   patch_scalar_in_block block (k # aliases) value_str = (block, 0) \<and>
   patch_list_in_block block (k # aliases) new_list_str new_list_obj = (block, 0) \<and>
   (key_forms k = k # aliases \<longrightarrow>
      apply_updates block ((k, v) # kvs) =
        (case patch_field block k v of Inl e \<Rightarrow> Inl e | Inr r \<Rightarrow> apply_updates block kvs))"
proof -
  assume absent: "\<forall>a\<in>set (k # aliases). \<not> contains block a"
  have ne: "k # aliases \<noteq> []" by simp
  note none = search_head_absent[OF ne absent]
  have scalar: "patch_scalar_in_block block (k # aliases) s = (block, 0)" for s
    by (simp add: patch_scalar_in_block_def subn1_def none)
  have lst: "patch_list_in_block block (k # aliases) a b = (block, 0)" for a b
    by (simp add: patch_list_in_block_def none)
  have "apply_updates block ((k, v) # kvs) =
          (case patch_field block k v of Inl e \<Rightarrow> Inl e | Inr r \<Rightarrow> apply_updates block kvs)"
    if "key_forms k = k # aliases"
  proof (cases "patch_field block k v")
    case (Inl e)
    then show ?thesis by (simp add: update_step_def)
  next
    case (Inr r)
    then have "r = (block, 0)"
      using that scalar lst
      by (auto simp: patch_field_def split: pyval.splits if_splits sum.splits)
    with Inr show ?thesis by (simp add: update_step_def)
  qed
  with scalar lst show ?thesis by blast
qed

theorem absent_key_not_patched_witness:
  \<open>\<not> contains ''{"id":"b","n":2}'' ''hull'' \<and>
   patch_scalar_in_block ''{"id":"b","n":2}'' [''hull''] ''9'' = (''{"id":"b","n":2}'', 0) \<and>
   patch_list_in_block ''{"id":"b","n":2}'' [''hull''] (Some ''[9]'') None = (''{"id":"b","n":2}'', 0) \<and>
   key_forms ''hull'' = [''hull''] \<and>
   apply_updates ''{"id":"b","n":2}'' [(''hull'', VInt 9), (''n'', VInt 5)] = Inr ''{"id":"b","n":5}''\<close>
proof -
  have h: \<open>\<forall>a\<in>set [''hull'']. \<not> contains ''{"id":"b","n":2}'' a\<close> by code_simp
  have kf: "key_forms ''hull'' = [''hull'']" by code_simp
  have rest: \<open>(case patch_field ''{"id":"b","n":2}'' ''hull'' (VInt 9) of Inl e \<Rightarrow> Inl e
                | Inr r \<Rightarrow> apply_updates ''{"id":"b","n":2}'' [(''n'', VInt 5)]) = Inr ''{"id":"b","n":5}''\<close>
    by code_simp
  from absent_key_not_patched[OF h, of "''9''" "Some ''[9]''" None "VInt 9" "[(''n'', VInt 5)]"] h kf rest
  show ?thesis by simp
qed

section \<open>Patching a scalar to the value it holds\<close>

text \<open>
  C2. Patching a scalar field to the rendered form of the value it holds is to give the text
  back byte for byte. In \<open>{"n": 1 }\<close> the field \<open>n\<close> holds 1, rendered \<open>1\<close>; the bare value
  token of the patcher's pattern runs up to the closing brace and takes the blank before it
  with it, so the patch returns \<open>{"n": 1}\<close>. In \<open>{fn: 1, n: 2}\<close> the alias \<open>n\<close> is first found
  at the end of the key \<open>fn\<close>, and patching \<open>n\<close> to its value 2 overwrites the value of
  \<open>fn\<close>. In \<open>{n: 1 // note\<close> the token runs to the end of the line, and patching \<open>n\<close> to its
  value 1 deletes the comment.
\<close>

theorem patch_scalar_own_value_changes_text:
  \<open>repr_hjson_scalar (VInt 1) = Inr ''1'' \<and>
   patch_scalar_in_block ''{"n": 1 }'' [''n''] ''1'' = (''{"n": 1}'', 1) \<and>
   ''{"n": 1}'' \<noteq> ''{"n": 1 }'' \<and>
   repr_hjson_scalar (VInt 2) = Inr ''2'' \<and>
   patch_scalar_in_block ''{fn: 1, n: 2}'' [''n''] ''2'' = (''{fn: 2, n: 2}'', 1) \<and>
   patch_scalar_in_block (''{n: 1 // note'' @ [NL] @ ''}'') [''n''] ''1'' =
     (''{n: 1'' @ [NL] @ ''}'', 1)\<close>
  by code_simp

section \<open>Finding a record by its key: \<open>_iter_object_spans_for_key\<close>\<close>

lemma search_from_Some:
  "search_from r text pos = Some m \<Longrightarrow>
   pos \<le> m_start m \<and> m_start m \<le> m_end m \<and> m_end m \<le> length text"
proof -
  assume a: "search_from r text pos = Some m"
  then have 1: "m_start m \<in> set [pos..<Suc (length text)]"
    and 2: "(m_end m, m_groups m) \<in> set (ms r text (m_start m) Map.empty)"
    using search_in_Some[of r "text" "[pos..<Suc (length text)]" m]
    by (simp_all add: search_from_def)
  from ms_within[OF 2] 1 show ?thesis by (auto simp: within_def)
qed

text \<open>
  \<open>rx.finditer(text)\<close>: the matches from left to right, each search starting where the
  last match ended. The patterns iterated in the source never match the empty string; after
  an empty match the search moves on by one character.
\<close>

function finditer_from :: "rx \<Rightarrow> string \<Rightarrow> nat \<Rightarrow> rmatch list" where
  "finditer_from r text pos =
     (case search_from r text pos of
        None \<Rightarrow> []
      | Some m \<Rightarrow>
          m # finditer_from r text (if m_end m = m_start m then m_end m + 1 else m_end m))"
  by pat_completeness auto
termination
proof (relation "measure (\<lambda>(r, text, pos). Suc (length text) - pos)", goal_cases)
  case 1
  show ?case by simp
next
  case (2 r "text" pos m)
  from search_from_Some[OF 2] show ?case by auto
qed

definition finditer :: "rx \<Rightarrow> string \<Rightarrow> rmatch list" where
  "finditer r text = finditer_from r text 0"

definition bare_char :: "char \<Rightarrow> bool" where
  \<comment> \<open>\<open>[A-Za-z0-9_\-\.]\<close>\<close>
  "bare_char c =
     (let n = (of_char c :: nat)
      in (65 \<le> n \<and> n \<le> 90) \<or> (97 \<le> n \<and> n \<le> 122) \<or> (48 \<le> n \<and> n \<le> 57) \<or>
         c = CHR ''_'' \<or> c = CHR ''-'' \<or> c = CHR ''.'')"

definition quoted_body :: "char \<Rightarrow> rx" where
  \<comment> \<open>\<open>[^"\\]*(?:\\.[^"\\]*)*\<close> for the quote character \<open>q\<close>\<close>
  "quoted_body q =
     Seq (Star (Cls (none_of [q, BSL])))
         (Star (seqs [Lit [BSL], Cls any_char, Star (Cls (none_of [q, BSL]))]))"

definition key_pat :: rx where
  "key_pat = seqs
     [Opt (Lit [DQ]), Cls (one_of ''Kk''), Lit ''ey'', Opt (Lit [DQ]), ws, Lit '':'', ws, comment_rx,
      Grp ''val'' (alts
        [seqs [Lit [DQ], Grp ''dval'' (quoted_body DQ), Lit [DQ]],
         seqs [Lit [SQ], Grp ''sval'' (quoted_body SQ), Lit [SQ]],
         Grp ''bval'' (Plus (Cls bare_char))])]"

definition matched_value :: "string \<Rightarrow> rmatch \<Rightarrow> string" where
  \<comment> \<open>\<open>m.group("dval") or m.group("sval") or m.group("bval") or ""\<close>\<close>
  "matched_value raw m =
     (if group raw m ''dval'' \<noteq> [] then group raw m ''dval''
      else if group raw m ''sval'' \<noteq> [] then group raw m ''sval''
      else group raw m ''bval'')"

text \<open>
  The backward walk of \<open>find_object_bounds\<close> from the anchor to the enclosing opening
  brace. The walk reads the text right to left with the same string states as the forward
  scans.
\<close>

definition back_body :: "string \<Rightarrow> int \<Rightarrow> balance \<Rightarrow> (int \<times> balance) + nat" where
  \<comment> \<open>one pass at cursor \<open>i\<close>: \<open>Inl\<close> the next cursor (\<open>i -= 1\<close>) and the new variables,
      \<open>Inr i\<close> the \<open>break\<close> with \<open>start = i\<close>\<close>
  "back_body raw i s =
     (let ch = raw ! nat i in
      if in_dq s \<or> in_sq s then
        (if esc s then Inl (i - 1, s\<lparr>esc := False\<rparr>)
         else if ch = BSL then Inl (i - 1, s\<lparr>esc := True\<rparr>)
         else if in_dq s \<and> ch = DQ then Inl (i - 1, s\<lparr>in_dq := False\<rparr>)
         else if in_sq s \<and> ch = SQ then Inl (i - 1, s\<lparr>in_sq := False\<rparr>)
         else Inl (i - 1, s))
      else
        (if ch = DQ then Inl (i - 1, s\<lparr>in_dq := True\<rparr>)
         else if ch = SQ then Inl (i - 1, s\<lparr>in_sq := True\<rparr>)
         else if ch = CHR ''}'' then Inl (i - 1, s\<lparr>bdepth := bdepth s + 1\<rparr>)
         else if ch = CHR ''{'' then
           (if bdepth s = 0 then Inr (nat i) else Inl (i - 1, s\<lparr>bdepth := bdepth s - 1\<rparr>))
         else Inl (i - 1, s)))"

lemma back_body_lt: "back_body raw i s = Inl (i', s') \<Longrightarrow> i' = i - 1"
  by (auto simp: back_body_def Let_def split: if_splits)

function back_walk :: "string \<Rightarrow> int \<Rightarrow> balance \<Rightarrow> nat option" where
  \<comment> \<open>\<open>while i >= 0\<close>, the cursor going down; \<open>None\<close> when it ends with \<open>start\<close> still
      \<open>None\<close>\<close>
  "back_walk raw i s =
     (if i \<ge> 0 then
        (case back_body raw i s of
           Inl (i', s') \<Rightarrow> back_walk raw i' s'
         | Inr st \<Rightarrow> Some st)
      else None)"
  by pat_completeness auto
termination
  by (relation "measure (\<lambda>(raw, i, s). nat (i + 1))") (auto dest: back_body_lt)

definition line_brace_rx :: rx where
  \<comment> \<open>\<open>^\s*\{\<close> under \<open>re.M\<close>\<close>
  "line_brace_rx = seqs [Bol, ws, Lit ''{'']"

definition object_body :: "string \<Rightarrow> nat \<Rightarrow> balance \<Rightarrow> (nat \<times> balance) + nat" where
  \<comment> \<open>one pass of the forward balance of \<open>find_object_bounds\<close>\<close>
  "object_body raw i s =
     (let ch = raw ! i in
      if \<not> (in_dq s \<or> in_sq s) \<and> (slice raw i (i + 2) = ''//'' \<or> ch = CHR ''#'')
      then Inl (line_end raw i, s)
      else if \<not> (in_dq s \<or> in_sq s) \<and> slice raw i (i + 2) = ''/*''
      then Inl (skip_block_comment raw i, s)
      else if in_dq s \<or> in_sq s then
        (if esc s then Inl (i + 1, s\<lparr>esc := False\<rparr>)
         else if ch = BSL then Inl (i + 1, s\<lparr>esc := True\<rparr>)
         else if in_dq s \<and> ch = DQ then Inl (i + 1, s\<lparr>in_dq := False\<rparr>)
         else if in_sq s \<and> ch = SQ then Inl (i + 1, s\<lparr>in_sq := False\<rparr>)
         else Inl (i + 1, s))
      else
        (if ch = DQ then Inl (i + 1, s\<lparr>in_dq := True\<rparr>)
         else if ch = SQ then Inl (i + 1, s\<lparr>in_sq := True\<rparr>)
         else if ch = CHR ''{'' then Inl (i + 1, s\<lparr>bdepth := bdepth s + 1\<rparr>)
         else if ch = CHR ''}'' then
           (if bdepth s - 1 = 0 then Inr (i + 1) else Inl (i + 1, s\<lparr>bdepth := bdepth s - 1\<rparr>))
         else Inl (i + 1, s)))"

lemma object_body_gt:
  "i < length raw \<Longrightarrow> object_body raw i s = Inl (i', s') \<Longrightarrow> i < i'"
proof -
  assume i: "i < length raw" and b: "object_body raw i s = Inl (i', s')"
  have hash: "raw ! i \<noteq> NL \<Longrightarrow> i < line_end raw i"
    using i by (simp add: line_end_def Cons_nth_drop_Suc[symmetric])
  have sl: "slice raw i (i + 2) = ''//'' \<Longrightarrow> i < line_end raw i"
    using hash slice_first[OF i] by fastforce
  from b show ?thesis
    using hash sl skip_block_comment_gt[OF i]
    by (auto simp: object_body_def Let_def split: if_splits)
qed

function object_loop :: "string \<Rightarrow> nat \<Rightarrow> balance \<Rightarrow> nat option" where
  "object_loop raw i s =
     (if i < length raw then
        (case object_body raw i s of
           Inl (i', s') \<Rightarrow> object_loop raw i' s'
         | Inr e \<Rightarrow> Some e)
      else None)"
  by pat_completeness auto
termination
  by (relation "measure (\<lambda>(raw, i, s). length raw - i)")
     (auto intro!: diff_less_mono2 dest: object_body_gt)

definition find_object_bounds :: "string \<Rightarrow> nat \<Rightarrow> py_error + span option" where
  \<comment> \<open>\<open>raw[anchor]\<close> raises when the anchor is not an offset of the text\<close>
  "find_object_bounds raw anchor =
     (if anchor \<ge> length raw then Inl IndexError
      else
        (let init = \<lparr>bdepth = 0, in_dq = False, in_sq = False, esc = False\<rparr>;
             start =
               (case back_walk raw (int anchor) init of
                  Some st \<Rightarrow> Some st
                | None \<Rightarrow>
                    (case finditer line_brace_rx (take anchor raw) of
                       [] \<Rightarrow> None
                     | found \<Rightarrow> Some (m_end (last found) - 1)))
         in case start of
              None \<Rightarrow> Inr None
            | Some st \<Rightarrow> Inr (map_option (\<lambda>e. (st, e)) (object_loop raw st init))))"

fun spans_of_matches :: "string \<Rightarrow> string \<Rightarrow> rmatch list \<Rightarrow> span gen" where
  \<comment> \<open>the \<open>for m in key_pat.finditer(raw)\<close> loop\<close>
  "spans_of_matches raw wanted [] = Stop"
| "spans_of_matches raw wanted (m # rest) =
     (if matched_value raw m \<noteq> wanted then spans_of_matches raw wanted rest
      else (case find_object_bounds raw (m_start m) of
              Inl e \<Rightarrow> Raise e
            | Inr bounds \<Rightarrow> emit bounds (spans_of_matches raw wanted rest)))"

definition iter_object_spans_for_key :: "string \<Rightarrow> string \<Rightarrow> span gen" where
  "iter_object_spans_for_key raw wanted = spans_of_matches raw wanted (finditer key_pat raw)"

definition gen_list :: "'a gen \<Rightarrow> py_error + 'a list" where
  \<comment> \<open>\<open>list(g)\<close>\<close>
  "gen_list g = (case gen_error g of Some e \<Rightarrow> Inl e | None \<Rightarrow> Inr (yields g))"

section \<open>Records as dicts\<close>

type_synonym pydict = "(string \<times> pyval) list"

definition dget :: "pydict \<Rightarrow> string \<Rightarrow> pyval" where
  \<comment> \<open>\<open>d.get(k)\<close>\<close>
  "dget d k = (case map_of d k of Some v \<Rightarrow> v | None \<Rightarrow> VNone)"

definition dhas :: "pydict \<Rightarrow> string \<Rightarrow> bool" where
  \<comment> \<open>\<open>k in d\<close>\<close>
  "dhas d k = (map_of d k \<noteq> None)"

definition dset :: "pydict \<Rightarrow> string \<Rightarrow> pyval \<Rightarrow> pydict" where
  \<comment> \<open>\<open>d[k] = v\<close>: a key already there keeps its place\<close>
  "dset d k v =
     (if dhas d k then map (\<lambda>kv. if fst kv = k then (k, v) else kv) d else d @ [(k, v)])"

definition dpop :: "pydict \<Rightarrow> string \<Rightarrow> pydict" where
  \<comment> \<open>the dict after \<open>d.pop(k)\<close>\<close>
  "dpop d k = filter (\<lambda>kv. fst kv \<noteq> k) d"

definition dupdate :: "pydict \<Rightarrow> pydict \<Rightarrow> pydict" where
  \<comment> \<open>\<open>d.update(other)\<close>\<close>
  "dupdate d other = foldl (\<lambda>acc kv. dset acc (fst kv) (snd kv)) d other"

fun truthy :: "pyval \<Rightarrow> bool" where
  "truthy VNone = False"
| "truthy (VBool b) = b"
| "truthy (VInt i) = (i \<noteq> 0)"
| "truthy (VFloat s) = (s \<noteq> ''0.0'' \<and> s \<noteq> ''-0.0'')"
| "truthy (VStr s) = (s \<noteq> [])"
| "truthy (VList xs) = (xs \<noteq> [])"
| "truthy (VDict d) = (d \<noteq> [])"

definition py_or :: "pyval \<Rightarrow> pyval \<Rightarrow> pyval" where
  \<comment> \<open>\<open>a or b\<close>\<close>
  "py_or a b = (if truthy a then a else b)"

text \<open>
  The two library functions the mutators call: \<open>hjson.loads(block, object_pairs_hook=dict)\<close>,
  \<open>None\<close> when it raises, and \<open>str.casefold\<close>.
\<close>

record lib =
  loads :: "string \<Rightarrow> pydict option"
  casefold :: "string \<Rightarrow> string"

definition side_of :: "lib \<Rightarrow> pydict \<Rightarrow> py_error + string" where
  \<comment> \<open>\<open>(d.get("side") or d.get("Side") or "").casefold()\<close>: a value that is no string has
      no \<open>casefold\<close>\<close>
  "side_of L d =
     (case py_or (py_or (dget d ''side'') (dget d ''Side'')) (VStr []) of
        VStr s \<Rightarrow> Inr (casefold L s)
      | _ \<Rightarrow> Inl AttributeError)"

section \<open>Deleting a record: \<open>_surgical_delete_ship_by_key\<close>\<close>

function back_space :: "string \<Rightarrow> nat \<Rightarrow> int \<Rightarrow> int" where
  \<comment> \<open>\<open>while i > arr_start and raw[i].isspace(): i -= 1\<close>\<close>
  "back_space raw arr_start i =
     (if i > int arr_start \<and> isspace (raw ! nat i) then back_space raw arr_start (i - 1) else i)"
  by pat_completeness auto
termination
  by (relation "measure (\<lambda>(raw, arr_start, i). nat i)") auto

definition fwd_space :: "string \<Rightarrow> nat \<Rightarrow> nat" where
  \<comment> \<open>\<open>while j < n and raw[j].isspace(): j += 1\<close>\<close>
  "fwd_space raw j = j + length (takeWhile isspace (drop j raw))"

definition surgical_delete_ship_by_key :: "string option \<Rightarrow> string \<Rightarrow> py_error + (string option \<times> bool)" where
  \<comment> \<open>the new \<open>self._raw_text\<close> and the value returned\<close>
  "surgical_delete_ship_by_key raw_text key_value =
     (case raw_text of
        None \<Rightarrow> Inr (raw_text, False)
      | Some raw \<Rightarrow>
         if raw = [] then Inr (raw_text, False)
         else
           (case extract_ship_list_region raw of
              None \<Rightarrow> Inr (raw_text, False)
            | Some (arr_start, arr_end) \<Rightarrow>
               (case gen_list (iter_object_spans_for_key raw key_value) of
                  Inl e \<Rightarrow> Inl e
                | Inr [] \<Rightarrow> Inr (raw_text, False)
                | Inr ((start, end) # _) \<Rightarrow>
                   (let i = back_space raw arr_start (int start - 1)
                    in if i \<ge> int arr_start \<and> raw ! nat i = CHR '','' then
                         Inr (Some (take (nat i) raw @ drop end raw), True)
                       else
                         (let j = fwd_space raw end;
                              j' = (if j < length raw \<and> raw ! j = CHR '','' then j + 1 else j)
                          in Inr (Some (take start raw @ drop j' raw), True))))))"

text \<open>
  C4. Deleting the first record of the array is to leave the next record as the first token
  after the opening bracket. In the one-line document
  \<open>{"#ship-list":[{"Key":"a"},{"Key":"b"}]}\<close> the keys are quoted. The search for the braces
  of the record starts on the opening quote of \<open>"Key"\<close>, so it walks backwards in string
  state and passes the brace of the record; the fallback then takes the brace that opens
  the document, and the span located for the key \<open>a\<close> is the whole document, \<open>(0, 40)\<close>. No
  comma precedes that span, so the deletion removes it: the text becomes empty and the call
  returns \<open>True\<close>.
\<close>

theorem delete_first_record_empties_document:
  \<open>length ''{"#ship-list":[{"Key":"a"},{"Key":"b"}]}'' = 40 \<and>
   extract_ship_list_region ''{"#ship-list":[{"Key":"a"},{"Key":"b"}]}'' = Some (14, 39) \<and>
   gen_list (iter_object_spans_for_key ''{"#ship-list":[{"Key":"a"},{"Key":"b"}]}'' ''a'') =
     Inr [(0, 40)] \<and>
   surgical_delete_ship_by_key (Some ''{"#ship-list":[{"Key":"a"},{"Key":"b"}]}'') ''a'' =
     Inr (Some [], True)\<close>
  by code_simp

section \<open>Inserting a record: \<open>_surgical_insert_ship_block\<close>\<close>

record key_style =
  ks_key :: string
  ks_name :: string
  ks_side :: string
  ks_artfileroot :: string

definition deduce_key_style :: "pydict \<Rightarrow> key_style" where
  "deduce_key_style d =
     \<lparr>ks_key = (if dhas d ''Key'' then ''Key'' else if dhas d ''key'' then ''key'' else ''Key''),
      ks_name = (if dhas d ''Name'' then ''Name'' else if dhas d ''name'' then ''name'' else ''name''),
      ks_side = (if dhas d ''Side'' then ''Side'' else if dhas d ''side'' then ''side'' else ''side''),
      ks_artfileroot =
        (if dhas d ''Artfileroot'' then ''Artfileroot''
         else if dhas d ''artfileroot'' then ''artfileroot'' else ''artfileroot'')\<rparr>"

definition rename_if :: "bool \<Rightarrow> string \<Rightarrow> string \<Rightarrow> pydict \<Rightarrow> pydict" where
  \<comment> \<open>\<open>if old in s and cond: s[new] = s.pop(old)\<close>\<close>
  "rename_if cond old new s =
     (if dhas s old \<and> cond then dset (dpop s old) new (dget s old) else s)"

definition apply_key_style :: "key_style \<Rightarrow> pydict \<Rightarrow> pydict" where
  "apply_key_style st s =
     (rename_if (ks_artfileroot st = ''Artfileroot'') ''artfileroot'' ''Artfileroot''
      (rename_if (ks_artfileroot st = ''artfileroot'') ''Artfileroot'' ''artfileroot''
      (rename_if (ks_side st = ''Side'') ''side'' ''Side''
      (rename_if (ks_side st = ''side'') ''Side'' ''side''
      (rename_if (ks_name st = ''Name'') ''name'' ''Name''
      (rename_if (ks_name st = ''name'') ''Name'' ''name''
      (rename_if (ks_key st = ''Key'') ''key'' ''Key''
      (rename_if (ks_key st = ''key'') ''Key'' ''key'' s))))))))"

definition ship_list_indentation ::
  "string \<Rightarrow> nat \<Rightarrow> nat \<Rightarrow> py_error + (string \<times> string \<times> string)" where
  \<comment> \<open>\<open>(base_indent, item_indent, lb)\<close>; the loop over the spans stops at the first one\<close>
  "ship_list_indentation raw arr_start arr_end =
     (let lb = (if contains raw [CR, NL] then [CR, NL] else [NL]);
          base_indent = slice raw (rfind_nl raw arr_start) arr_start
      in case iter_top_level_flow_maps raw arr_start arr_end of
           Stop \<Rightarrow> Inr (base_indent, base_indent @ ''  '', lb)
         | Raise e \<Rightarrow> Inl e
         | Yield sp g \<Rightarrow> Inr (base_indent, slice raw (rfind_nl raw (fst sp)) (fst sp), lb))"

fun first_sample :: "lib \<Rightarrow> string \<Rightarrow> span gen \<Rightarrow> py_error + pydict option" where
  \<comment> \<open>the first block \<open>hjson\<close> can parse\<close>
  "first_sample L raw Stop = Inr None"
| "first_sample L raw (Raise e) = Inl e"
| "first_sample L raw (Yield sp g) =
     (case loads L (slice raw (fst sp) (snd sp)) of
        Some sample \<Rightarrow> Inr (Some sample)
      | None \<Rightarrow> first_sample L raw g)"

fun last_same_side ::
  "lib \<Rightarrow> string \<Rightarrow> string \<Rightarrow> nat option \<Rightarrow> span gen \<Rightarrow> py_error + nat option" where
  \<comment> \<open>the loop that sets \<open>same_side_last_end\<close>\<close>
  "last_same_side L raw new_side acc Stop = Inr acc"
| "last_same_side L raw new_side acc (Raise e) = Inl e"
| "last_same_side L raw new_side acc (Yield sp g) =
     (case loads L (slice raw (fst sp) (snd sp)) of
        None \<Rightarrow> last_same_side L raw new_side acc g
      | Some d \<Rightarrow>
          (case side_of L d of
             Inl e \<Rightarrow> Inl e
           | Inr side_val \<Rightarrow>
               last_same_side L raw new_side
                 (if side_val = new_side then Some (snd sp) else acc) g))"

definition strip :: "string \<Rightarrow> string" where
  \<comment> \<open>\<open>s.strip()\<close>\<close>
  "strip s = rev (dropWhile isspace (rev (dropWhile isspace s)))"

definition ship_key_order :: "string list" where
  "ship_key_order =
     [''Key'', ''key'', ''Name'', ''name'', ''Side'', ''side'', ''Artfileroot'', ''artfileroot'']"

definition render_ship_block :: "pydict \<Rightarrow> string \<Rightarrow> string" where
  "render_ship_block ship_dict item_indent =
     (let ordered =
            map (\<lambda>k. (k, dget ship_dict k)) (filter (dhas ship_dict) ship_key_order) @
            filter (\<lambda>kv. fst kv \<notin> set ship_key_order) ship_dict
      in repr_hjson_map_pretty ordered
           (if length item_indent \<ge> 2 then take (length item_indent - 2) item_indent else [])
           ''  '')"

definition surgical_insert_ship_block ::
  "lib \<Rightarrow> string option \<Rightarrow> pydict \<Rightarrow> bool \<Rightarrow> py_error + string" where
  \<comment> \<open>the new \<open>self._raw_text\<close>\<close>
  "surgical_insert_ship_block L raw_text ship cluster_by_side =
     (case raw_text of
        None \<Rightarrow> Inl (RuntimeError ''No raw text captured for surgical insert.'')
      | Some raw \<Rightarrow>
     if raw = [] then Inl (RuntimeError ''No raw text captured for surgical insert.'')
     else
     (case extract_ship_list_region raw of
        None \<Rightarrow> Inl (RuntimeError ''Could not find #ship-list region for insertion.'')
      | Some (arr_start, arr_end) \<Rightarrow>
     (case ship_list_indentation raw arr_start arr_end of
        Inl e \<Rightarrow> Inl e
      | Inr (base_indent, item_indent, lb) \<Rightarrow>
     (case first_sample L raw (iter_top_level_flow_maps raw arr_start arr_end) of
        Inl e \<Rightarrow> Inl e
      | Inr sample \<Rightarrow>
     (let style =
            (case sample of
               Some d \<Rightarrow> deduce_key_style d
             | None \<Rightarrow> \<lparr>ks_key = ''Key'', ks_name = ''name'', ks_side = ''side'',
                         ks_artfileroot = ''artfileroot''\<rparr>);
          s = apply_key_style style ship
      in
     (case side_of L s of
        Inl e \<Rightarrow> Inl e
      | Inr new_side \<Rightarrow>
     (case (if cluster_by_side \<and> new_side \<noteq> []
            then last_same_side L raw new_side None (iter_top_level_flow_maps raw arr_start arr_end)
            else Inr None) of
        Inl e \<Rightarrow> Inl e
      | Inr same_side_last_end \<Rightarrow>
     (let (insertion_pos, trailing_comma_needed) =
            (case same_side_last_end of
               Some p \<Rightarrow> (p, True)
             | None \<Rightarrow>
                 (arr_end - 1,
                  raw ! nat (back_space raw arr_start (int (arr_end - 1) - 1)) \<noteq> CHR ''[''));
          block_txt = render_ship_block s item_indent;
          add = (if trailing_comma_needed then '','' @ lb else []) @
                item_indent @ strip block_txt @
                (if same_side_last_end \<noteq> None then '','' else []) @ lb
      in Inr (take insertion_pos raw @ add @ drop insertion_pos raw)))))))))"

definition ascii_lower :: "string \<Rightarrow> string" where
  "ascii_lower s = map (\<lambda>c. if 65 \<le> (of_char c :: nat) \<and> (of_char c :: nat) \<le> 90 then char_of (of_char c + 32 :: nat) else c) s"

definition doc_ab :: string where
  \<open>doc_ab = ''{'' @ [NL] @ ''  "#ship-list": ['' @ [NL] @ ''    {Key: "a", side: "X"},'' @ [NL] @
             ''    {Key: "b", side: "y"}'' @ [NL] @ ''  ]'' @ [NL] @ ''}''\<close>

definition example_loads :: "string \<Rightarrow> pydict option" where
  \<open>example_loads s =
     (if s = ''{Key: "a", side: "X"}'' then Some [(''Key'', VStr ''a''), (''side'', VStr ''X'')]
      else if s = ''{Key: "b", side: "y"}'' then Some [(''Key'', VStr ''b''), (''side'', VStr ''y'')]
      else None)\<close>

definition example_lib :: lib where
  "example_lib = \<lparr>loads = example_loads, casefold = ascii_lower\<rparr>"

text \<open>
  C3. The new record goes right after the last record with the same side, else before the
  closing bracket; it is to get a leading separator exactly when a sibling precedes it and a
  trailing one exactly when siblings follow, with no doubled separator. On the document
  \<open>doc_ab\<close>, with records \<open>a\<close> of side \<open>X\<close> and \<open>b\<close> of side \<open>y\<close>, the source writes a comma
  after every record it clusters. A record of side \<open>x\<close> goes after \<open>a\<close>, whose own comma stays
  in place, and two commas then separate the new record from \<open>b\<close>. A record of side \<open>Y\<close> goes
  after the last record \<open>b\<close>, and a comma follows it although no sibling does.
\<close>

theorem insert_cluster_trailing_comma:
  \<open>surgical_insert_ship_block example_lib (Some doc_ab) [(''Key'', VStr ''c''), (''side'', VStr ''x'')] True =
     Inr (''{'' @ [NL] @ ''  "#ship-list": ['' @ [NL] @ ''    {Key: "a", side: "X"},'' @ [NL] @
          ''    {'' @ [NL] @ ''    "Key": "c",'' @ [NL] @ ''    "side": "x"'' @ [NL] @
          ''  },'' @ [NL] @ '','' @ [NL] @ ''    {Key: "b", side: "y"}'' @ [NL] @ ''  ]'' @
          [NL] @ ''}'') \<and>
   surgical_insert_ship_block example_lib (Some doc_ab) [(''Key'', VStr ''c''), (''side'', VStr ''Y'')] True =
     Inr (''{'' @ [NL] @ ''  "#ship-list": ['' @ [NL] @ ''    {Key: "a", side: "X"},'' @ [NL] @
          ''    {Key: "b", side: "y"},'' @ [NL] @ ''    {'' @ [NL] @ ''    "Key": "c",'' @
          [NL] @ ''    "side": "Y"'' @ [NL] @ ''  },'' @ [NL] @ [NL] @ ''  ]'' @ [NL] @ ''}'')\<close>
  by code_simp

section \<open>Updating a record: \<open>_surgical_save_current_ship\<close>\<close>

definition str_of :: "pyval \<Rightarrow> py_error + string" where
  \<comment> \<open>\<open>str(v)\<close>; the \<open>repr\<close> of lists and dicts is not modelled\<close>
  "str_of v = (case v of VList xs \<Rightarrow> Inl Unmodelled | VDict d \<Rightarrow> Inl Unmodelled | _ \<Rightarrow> Inr (py_str v))"

definition locate :: "string \<Rightarrow> pyval \<Rightarrow> py_error + span option" where
  \<comment> \<open>\<open>matches = list(self._iter_object_spans_for_key(raw, str(v)))\<close> and then
      \<open>matches[0] if matches else None\<close>\<close>
  "locate raw v =
     (case str_of v of
        Inl e \<Rightarrow> Inl e
      | Inr wanted \<Rightarrow>
          (case gen_list (iter_object_spans_for_key raw wanted) of
             Inl e \<Rightarrow> Inl e
           | Inr [] \<Rightarrow> Inr None
           | Inr (sp # _) \<Rightarrow> Inr (Some sp)))"

definition locate_ship :: "string \<Rightarrow> pyval \<Rightarrow> pyval \<Rightarrow> py_error + span option" where
  \<comment> \<open>the search by \<open>Key\<close>, then by \<open>name\<close> when that found nothing\<close>
  "locate_ship raw key_val name_val =
     (case (if truthy key_val then locate raw key_val else Inr None) of
        Inl e \<Rightarrow> Inl e
      | Inr (Some sp) \<Rightarrow> Inr (Some sp)
      | Inr None \<Rightarrow> if truthy name_val then locate raw name_val else Inr None)"

definition relocate_ship :: "string \<Rightarrow> pyval \<Rightarrow> pyval \<Rightarrow> py_error + span option" where
  \<comment> \<open>the search again after an insertion: \<open>if key_val: ... elif name_val: ...\<close>\<close>
  "relocate_ship raw key_val name_val =
     (if truthy key_val then locate raw key_val
      else if truthy name_val then locate raw name_val
      else Inr None)"

definition patch_and_stamp ::
  "string \<Rightarrow> string \<Rightarrow> span \<Rightarrow> pydict \<Rightarrow> py_error + string" where
  \<comment> \<open>from \<open>start, end = span\<close> on: patch the block, splice it back, stamp the banner; the
      result is the text written to the file\<close>
  "patch_and_stamp banner_value raw sp updates =
     (case apply_updates (slice raw (fst sp) (snd sp)) (sort_key fst updates) of
        Inl e \<Rightarrow> Inl e
      | Inr block \<Rightarrow>
          Inr (upsert_editor_banner_simple banner_value
                 (take (fst sp) raw @ block @ drop (snd sp) raw)))"

definition surgical_save_current_ship ::
  "lib \<Rightarrow> string \<Rightarrow> string option \<Rightarrow> pydict \<Rightarrow> pydict \<Rightarrow> py_error + string" where
  "surgical_save_current_ship L banner_value raw_text ship updates =
     (case raw_text of
        None \<Rightarrow> Inl (RuntimeError ''No raw text captured for surgical save.'')
      | Some raw \<Rightarrow>
     if raw = [] then Inl (RuntimeError ''No raw text captured for surgical save.'')
     else
     (let key_val = py_or (dget ship ''Key'') (dget ship ''key'');
          name_val = dget ship ''name''
      in case locate_ship raw key_val name_val of
           Inl e \<Rightarrow> Inl e
         | Inr (Some sp) \<Rightarrow> patch_and_stamp banner_value raw sp updates
         | Inr None \<Rightarrow>
             (case surgical_insert_ship_block L (Some raw) (dupdate ship updates) True of
                Inl e \<Rightarrow> Inl e
              | Inr raw' \<Rightarrow>
                  (case relocate_ship raw' key_val name_val of
                     Inl e \<Rightarrow> Inl e
                   | Inr None \<Rightarrow>
                       Inl (RuntimeError
                              ''Inserted new ship, but could not re-locate it for patching.'')
                   | Inr (Some sp) \<Rightarrow> patch_and_stamp banner_value raw' sp updates))))"

definition doc_json_a :: string where
  \<open>doc_json_a = ''{"#ship-list":[{"Key":"a"}]}''\<close>

definition json_lib :: lib where
  \<open>json_lib =
     \<lparr>loads = (\<lambda>s. if s = ''{"Key":"a"}'' then Some [(''Key'', VStr ''a'')] else None),
      casefold = ascii_lower\<rparr>\<close>

definition ship_c :: pydict where
  "ship_c = [(''Key'', VStr ''c''), (''hull'', VInt 3)]"

definition doc_json_a_inserted :: string where
  \<open>doc_json_a_inserted =
     ''{"#ship-list":[{"Key":"a"},'' @ [NL] @ ''{"#ship-list":[{'' @ [NL] @
     ''{"#ship-list"  "Key": "c",'' @ [NL] @ ''{"#ship-list"  "hull": 4'' @ [NL] @
     ''{"#ship-list"}'' @ [NL] @ '']}''\<close>

text \<open>
  C5. When no record matches the discriminant, the update is to insert the record as a new
  entry and then patch it, and the deletion is to change nothing and return \<open>False\<close>. The
  one-line document \<open>doc_json_a\<close> has no record of key \<open>c\<close>, and the deletion of \<open>c\<close> leaves it
  as it is and returns \<open>False\<close>. The update of the ship \<open>c\<close> inserts the record, with the text
  before the first record on its line, \<open>{"#ship-list":[\<close>, taken as the indentation of the
  records; the search for the key \<open>c\<close> in the new text then locates no record, and the update
  raises \<open>RuntimeError\<close> where it was to patch the new entry.
\<close>

theorem update_missing_record_not_relocated:
  \<open>gen_list (iter_object_spans_for_key doc_json_a ''c'') = Inr [] \<and>
   surgical_delete_ship_by_key (Some doc_json_a) ''c'' = Inr (Some doc_json_a, False) \<and>
   surgical_insert_ship_block json_lib (Some doc_json_a) (dupdate ship_c [(''hull'', VInt 4)]) True =
     Inr doc_json_a_inserted \<and>
   gen_list (iter_object_spans_for_key doc_json_a_inserted ''c'') = Inr [] \<and>
   surgical_save_current_ship json_lib ''v'' (Some doc_json_a) ship_c [(''hull'', VInt 4)] =
     Inl (RuntimeError ''Inserted new ship, but could not re-locate it for patching.'')\<close>
  by code_simp

end
